theory Spec2Isabelle
  imports Complex_Main
begin

section \<open>STREL formulas: interval value types\<close>

text \<open>
  A shallow embedding of \<^verbatim>\<open>src/automatix/logic/strel.py\<close>.  Python integers are
  \<^typ>\<open>int\<close>, an \<^verbatim>\<open>Optional\<close> field is an \<^typ>\<open>'a option\<close>, and every
  \<^verbatim>\<open>raise\<close> or failed \<^verbatim>\<open>assert\<close> is the left injection of a sum.
\<close>

datatype reason =
    PointInterval          \<comment> \<open>"Time intervals cannot be point values [a,a]"\<close>
  | ReversedBounds         \<comment> \<open>"Time interval [a,b] cannot have a > b"\<close>
  | NegativeBounds         \<comment> \<open>"Time interval cannot have negative bounds"\<close>
  | NegativeDistance       \<comment> \<open>"Distane cannot be less than 0"\<close>
  | DegenerateDistance     \<comment> \<open>"Distance interval cannot have `start` >= `end`"\<close>
  | NonPositiveSteps       \<comment> \<open>"Next operator cannot have non-positive steps"\<close>

datatype error = ValueError reason | AssertionError | RuntimeError

subsection \<open>TimeInterval\<close>

datatype TimeInterval = TimeInterval (ti_start: "int option") (ti_end: "int option")

text \<open>
  \<^verbatim>\<open>TimeInterval.__post_init__\<close>: the three guarded cases are tried in order and
  each of them needs both fields to be integers.  When no case matches the object is
  kept as it was built.
\<close>

fun TimeInterval_init :: "int option \<Rightarrow> int option \<Rightarrow> error + TimeInterval" where
  "TimeInterval_init (Some t1) (Some t2) =
     (if t1 = t2 then Inl (ValueError PointInterval)
      else if t1 > t2 then Inl (ValueError ReversedBounds)
      else if t1 < 0 \<or> t2 < 0 then Inl (ValueError NegativeBounds)
      else Inr (TimeInterval (Some t1) (Some t2)))"
| "TimeInterval_init s e = Inr (TimeInterval s e)"

text \<open>
  \<^verbatim>\<open>TimeInterval.__iter__\<close> hands out a Python iterator: \<^verbatim>\<open>itertools.count(start)\<close>,
  the iterator of a \<^verbatim>\<open>range\<close>, or the iterator of the empty list.  An iterator is
  its state; \<open>iter_next\<close> is \<^verbatim>\<open>next()\<close>, with \<open>None\<close> for \<^verbatim>\<open>StopIteration\<close>.
\<close>

datatype iterator = Count int | RangeIter int int | ListIter "int list"

fun iter_next :: "iterator \<Rightarrow> (int \<times> iterator) option" where
  "iter_next (Count n) = Some (n, Count (n + 1))"
| "iter_next (RangeIter i stop) =
     (if i < stop then Some (i, RangeIter (i + 1) stop) else None)"
| "iter_next (ListIter []) = None"
| "iter_next (ListIter (x # xs)) = Some (x, ListIter xs)"

text \<open>The first \<open>n\<close> items an iterator yields (fewer when it stops before).\<close>

fun iter_take :: "nat \<Rightarrow> iterator \<Rightarrow> int list" where
  "iter_take 0 it = []"
| "iter_take (Suc n) it =
     (case iter_next it of None \<Rightarrow> [] | Some (x, it') \<Rightarrow> x # iter_take n it')"

fun TimeInterval_iter :: "TimeInterval \<Rightarrow> iterator" where
  "TimeInterval_iter (TimeInterval (Some start) None) = Count start"
| "TimeInterval_iter (TimeInterval None (Some end')) = RangeIter 0 (end' + 1)"
| "TimeInterval_iter (TimeInterval (Some start) (Some end')) = RangeIter start (end' + 1)"
| "TimeInterval_iter (TimeInterval None None) = ListIter []"

subsection \<open>DistanceInterval\<close>

text \<open>
  A Python \<^verbatim>\<open>float\<close> is a finite value, one of the two infinities, or a NaN.  The
  constructor only compares floats, and a comparison of two floats is the comparison
  of the numbers they denote (false as soon as a NaN takes part), so a finite float
  is its value as a real number.
\<close>

datatype pyfloat = Finite real | PosInf | NegInf | NaN

fun float_lt :: "pyfloat \<Rightarrow> pyfloat \<Rightarrow> bool" where
  "float_lt NaN _ = False"
| "float_lt _ NaN = False"
| "float_lt (Finite x) (Finite y) = (x < y)"
| "float_lt (Finite x) PosInf = True"
| "float_lt NegInf (Finite y) = True"
| "float_lt NegInf PosInf = True"
| "float_lt _ _ = False"

fun float_ge :: "pyfloat \<Rightarrow> pyfloat \<Rightarrow> bool" where
  "float_ge NaN _ = False"
| "float_ge _ NaN = False"
| "float_ge a b = (\<not> float_lt a b)"

datatype DistanceInterval =
  DistanceInterval (di_start: "pyfloat option") (di_end: "pyfloat option")

text \<open>
  \<^verbatim>\<open>DistanceInterval.__post_init__\<close>: a missing bound is overwritten with its
  default first, so both fields are floats when the two guarded cases are tried.
\<close>

definition DistanceInterval_init ::
  "pyfloat option \<Rightarrow> pyfloat option \<Rightarrow> error + DistanceInterval" where
  "DistanceInterval_init s e =
     (let start = (case s of None \<Rightarrow> Finite 0 | Some x \<Rightarrow> x);
          end' = (case e of None \<Rightarrow> PosInf | Some y \<Rightarrow> y)
      in if float_lt start (Finite 0) \<or> float_lt end' (Finite 0)
           then Inl (ValueError NegativeDistance)
         else if float_ge start end'
           then Inl (ValueError DegenerateDistance)
         else Inr (DistanceInterval (Some start) (Some end')))"

section \<open>The formula syntax tree\<close>

datatype Expr =
    Constant bool
  | Identifier string
  | NotOp Expr
  | AndOp Expr Expr
  | OrOp Expr Expr
  | EverywhereOp DistanceInterval Expr
  | SomewhereOp DistanceInterval Expr
  | EscapeOp DistanceInterval Expr
  | ReachOp Expr DistanceInterval Expr
  | NextOp "int option" Expr
  | GloballyOp "TimeInterval option" Expr
  | EventuallyOp "TimeInterval option" Expr
  | UntilOp Expr "TimeInterval option" Expr

text \<open>
  The constructors of the datatype build a node as it is; the functions below are the
  dataclass constructors, which run \<^verbatim>\<open>__post_init__\<close> after the fields are set.
\<close>

text \<open>\<^verbatim>\<open>NextOp.__post_init__\<close>: non-positive steps are refused, one step is stored as \<open>None\<close>.\<close>

fun NextOp_init :: "int option \<Rightarrow> Expr \<Rightarrow> error + Expr" where
  "NextOp_init (Some t) arg =
     (if t \<le> 0 then Inl (ValueError NonPositiveSteps)
      else if t = 1 then Inr (NextOp None arg)
      else Inr (NextOp (Some t) arg))"
| "NextOp_init None arg = Inr (NextOp None arg)"

text \<open>
  The \<^verbatim>\<open>__post_init__\<close> shared by \<^verbatim>\<open>GloballyOp\<close>, \<^verbatim>\<open>EventuallyOp\<close> and
  \<^verbatim>\<open>UntilOp\<close>: the intervals \<^verbatim>\<open>None\<close>, \<^verbatim>\<open>TimeInterval(None, None)\<close> and
  \<^verbatim>\<open>TimeInterval(0, None)\<close> are all stored as \<open>None\<close>.
\<close>

fun collapse_unbounded :: "TimeInterval option \<Rightarrow> TimeInterval option" where
  "collapse_unbounded None = None"
| "collapse_unbounded (Some (TimeInterval None None)) = None"
| "collapse_unbounded (Some (TimeInterval (Some t) None)) =
     (if t = 0 then None else Some (TimeInterval (Some t) None))"
| "collapse_unbounded (Some ti) = Some ti"

definition GloballyOp_init :: "TimeInterval option \<Rightarrow> Expr \<Rightarrow> Expr" where
  "GloballyOp_init interval arg = GloballyOp (collapse_unbounded interval) arg"

definition EventuallyOp_init :: "TimeInterval option \<Rightarrow> Expr \<Rightarrow> Expr" where
  "EventuallyOp_init interval arg = EventuallyOp (collapse_unbounded interval) arg"

definition UntilOp_init :: "Expr \<Rightarrow> TimeInterval option \<Rightarrow> Expr \<Rightarrow> Expr" where
  "UntilOp_init lhs interval rhs = UntilOp lhs (collapse_unbounded interval) rhs"

section \<open>Interval expansion\<close>

text \<open>
  A call of \<^verbatim>\<open>expand_intervals\<close> either returns a formula, raises, or does not
  return.  Its result is \<open>Some (Inr e)\<close>, \<open>Some (Inl err)\<close> or \<open>None\<close>.
\<close>

abbreviation returns :: "'a \<Rightarrow> (error + 'a) option" where
  "returns x \<equiv> Some (Inr x)"

abbreviation raises :: "error \<Rightarrow> (error + 'a) option" where
  "raises err \<equiv> Some (Inl err)"

text \<open>Evaluate \<open>m\<close>; an exception in it, or its not returning, ends the whole call.\<close>

abbreviation bind_result ::
  "(error + 'a) option \<Rightarrow> ('a \<Rightarrow> (error + 'b) option) \<Rightarrow> (error + 'b) option" where
  "bind_result m f \<equiv>
     Option.bind m (\<lambda>r. case r of Inl err \<Rightarrow> raises err | Inr x \<Rightarrow> f x)"

text \<open>\<^verbatim>\<open>isinstance(arg, NotOp)\<close>.\<close>

fun isinstance_NotOp :: "Expr \<Rightarrow> bool" where
  "isinstance_NotOp (NotOp _) = True"
| "isinstance_NotOp _ = False"

text \<open>
  The loop of \<^verbatim>\<open>NextOp.expand_intervals\<close>,
  \<^verbatim>\<open>for _ in range(t): expr = NextOp(None, expr)\<close>, by the number of rounds left.
  \<^verbatim>\<open>NextOp(None, _)\<close> passes its \<^verbatim>\<open>__post_init__\<close> unchanged.
\<close>

fun next_loop :: "nat \<Rightarrow> Expr \<Rightarrow> Expr" where
  "next_loop 0 expr = expr"
| "next_loop (Suc n) expr = next_loop n (NextOp None expr)"

text \<open>
  The loop of \<^verbatim>\<open>EventuallyOp.expand_intervals\<close>,
  \<^verbatim>\<open>for _ in range(t2): expr = OrOp(expr, NextOp(None, arg))\<close>.
\<close>

fun or_loop :: "nat \<Rightarrow> Expr \<Rightarrow> Expr \<Rightarrow> Expr" where
  "or_loop 0 arg expr = expr"
| "or_loop (Suc n) arg expr = or_loop n arg (OrOp expr (NextOp None arg))"

text \<open>
  \<^verbatim>\<open>expand_intervals\<close>, one branch per class.  \<^verbatim>\<open>Constant\<close>, \<^verbatim>\<open>Identifier\<close> and
  \<^verbatim>\<open>AndOp\<close> do not override the method of \<^verbatim>\<open>Expr\<close>, which returns \<^verbatim>\<open>self\<close>.
  The \<^verbatim>\<open>match\<close> statements on an interval are the case distinctions on its two
  fields, a start of \<open>0\<close> being tested where the source's patterns test it first.
\<close>

partial_function (option) expand_intervals :: "Expr \<Rightarrow> (error + Expr) option" where
  [code]: "expand_intervals self =
    (case self of
      Constant _ \<Rightarrow> returns self
    | Identifier _ \<Rightarrow> returns self
    | AndOp _ _ \<Rightarrow> returns self
    | NotOp arg0 \<Rightarrow>
        bind_result (expand_intervals arg0) (\<lambda>arg.
          if isinstance_NotOp arg then returns arg else returns (NotOp arg))
    | OrOp lhs rhs \<Rightarrow>
        bind_result (expand_intervals lhs) (\<lambda>lhs'.
        bind_result (expand_intervals rhs) (\<lambda>rhs'.
          returns (OrOp lhs' rhs')))
    | EverywhereOp interval arg0 \<Rightarrow>
        bind_result (expand_intervals arg0) (\<lambda>arg. returns (EverywhereOp interval arg))
    | SomewhereOp interval arg0 \<Rightarrow>
        bind_result (expand_intervals arg0) (\<lambda>arg. returns (SomewhereOp interval arg))
    | EscapeOp interval arg0 \<Rightarrow>
        bind_result (expand_intervals arg0) (\<lambda>arg. returns (EscapeOp interval arg))
    | ReachOp lhs interval rhs \<Rightarrow>
        bind_result (expand_intervals lhs) (\<lambda>lhs'.
        bind_result (expand_intervals rhs) (\<lambda>rhs'.
          returns (ReachOp lhs' interval rhs')))
    | NextOp steps arg0 \<Rightarrow>
        bind_result (expand_intervals arg0) (\<lambda>arg.
          case steps of
            None \<Rightarrow> Some (NextOp_init None arg)
          | Some t \<Rightarrow> returns (next_loop (nat t) arg))
    | GloballyOp interval arg0 \<Rightarrow>
        expand_intervals (NotOp (EventuallyOp_init interval (NotOp arg0)))
    | EventuallyOp interval arg0 \<Rightarrow>
        (case interval of
          None \<Rightarrow>
            bind_result (expand_intervals arg0) (\<lambda>arg. returns (EventuallyOp_init None arg))
        | Some (TimeInterval None None) \<Rightarrow>
            bind_result (expand_intervals arg0) (\<lambda>arg. returns (EventuallyOp_init None arg))
        | Some (TimeInterval None (Some t2)) \<Rightarrow>
            bind_result (expand_intervals arg0) (\<lambda>arg. returns (or_loop (nat t2) arg arg))
        | Some (TimeInterval (Some t1) None) \<Rightarrow>
            if t1 = 0 then
              bind_result (expand_intervals arg0) (\<lambda>arg. returns (EventuallyOp_init None arg))
            else if t1 > 0 then
              (case NextOp_init (Some t1) (EventuallyOp_init None arg0) of
                 Inl err \<Rightarrow> raises err
               | Inr shifted \<Rightarrow> expand_intervals shifted)
            else raises AssertionError
        | Some (TimeInterval (Some t1) (Some t2)) \<Rightarrow>
            if t1 = 0 then
              bind_result (expand_intervals arg0) (\<lambda>arg. returns (or_loop (nat t2) arg arg))
            else if t1 > 0 then
              (case TimeInterval_init (Some 0) (Some (t2 - t1)) of
                 Inl err \<Rightarrow> raises err
               | Inr window \<Rightarrow>
                   (case NextOp_init (Some t1) (EventuallyOp_init (Some window) arg0) of
                      Inl err \<Rightarrow> raises err
                    | Inr shifted \<Rightarrow> expand_intervals shifted))
            else raises AssertionError)
    | UntilOp lhs interval rhs \<Rightarrow>
        bind_result (expand_intervals lhs) (\<lambda>new_lhs.
        bind_result (expand_intervals rhs) (\<lambda>new_rhs.
          case interval of
            None \<Rightarrow> returns (UntilOp_init new_lhs None new_rhs)
          | Some (TimeInterval t1 None) \<Rightarrow>
              if t1 = None \<or> t1 = Some 0 then returns (UntilOp_init new_lhs None new_rhs)
              else (case TimeInterval_init (Some 0) t1 of
                      Inl err \<Rightarrow> raises err
                    | Inr bound \<Rightarrow>
                        expand_intervals
                          (GloballyOp_init (Some bound) (UntilOp_init new_lhs None new_rhs)))
          | Some (TimeInterval t1 (Some _)) \<Rightarrow>
              bind_result (expand_intervals (EventuallyOp_init interval new_lhs)) (\<lambda>z1.
                case TimeInterval_init t1 None of
                  Inl err \<Rightarrow> raises err
                | Inr until_interval \<Rightarrow>
                    bind_result
                      (expand_intervals (UntilOp_init new_lhs (Some until_interval) new_rhs))
                      (\<lambda>z2. returns (AndOp z1 z2))))))"

section \<open>Predicates on formulas\<close>

text \<open>A \<^verbatim>\<open>Constant\<close> or an \<^verbatim>\<open>Identifier\<close>.\<close>

fun is_atomic :: "Expr \<Rightarrow> bool" where
  "is_atomic (Constant _) = True"
| "is_atomic (Identifier _) = True"
| "is_atomic _ = False"

text \<open>
  No \<^verbatim>\<open>GloballyOp\<close> anywhere in the tree, and no \<^verbatim>\<open>EventuallyOp\<close> or
  \<^verbatim>\<open>UntilOp\<close> whose interval is not \<open>None\<close>.
\<close>

fun interval_free :: "Expr \<Rightarrow> bool" where
  "interval_free (Constant _) = True"
| "interval_free (Identifier _) = True"
| "interval_free (NotOp a) = interval_free a"
| "interval_free (AndOp l r) = (interval_free l \<and> interval_free r)"
| "interval_free (OrOp l r) = (interval_free l \<and> interval_free r)"
| "interval_free (EverywhereOp _ a) = interval_free a"
| "interval_free (SomewhereOp _ a) = interval_free a"
| "interval_free (EscapeOp _ a) = interval_free a"
| "interval_free (ReachOp l _ r) = (interval_free l \<and> interval_free r)"
| "interval_free (NextOp _ a) = interval_free a"
| "interval_free (GloballyOp _ _) = False"
| "interval_free (EventuallyOp i a) = (i = None \<and> interval_free a)"
| "interval_free (UntilOp l i r) = (i = None \<and> interval_free l \<and> interval_free r)"

text \<open>
  The same, read down to the conjunctions only: what lies below an \<^verbatim>\<open>AndOp\<close> is
  not looked at.
\<close>

fun expanded :: "Expr \<Rightarrow> bool" where
  "expanded (Constant _) = True"
| "expanded (Identifier _) = True"
| "expanded (NotOp a) = expanded a"
| "expanded (AndOp _ _) = True"
| "expanded (OrOp l r) = (expanded l \<and> expanded r)"
| "expanded (EverywhereOp _ a) = expanded a"
| "expanded (SomewhereOp _ a) = expanded a"
| "expanded (EscapeOp _ a) = expanded a"
| "expanded (ReachOp l _ r) = (expanded l \<and> expanded r)"
| "expanded (NextOp _ a) = expanded a"
| "expanded (GloballyOp _ _) = False"
| "expanded (EventuallyOp i a) = (i = None \<and> expanded a)"
| "expanded (UntilOp l i r) = (i = None \<and> expanded l \<and> expanded r)"

text \<open>
  How much rewriting a node still asks for.  The ranks follow the order in which the
  rules hand a formula on: a bounded until to a globally and an eventually, a globally
  to an eventually, an eventually that starts late to one that starts at \<open>0\<close>.
\<close>

fun eventually_rank :: "TimeInterval option \<Rightarrow> nat" where
  "eventually_rank None = 0"
| "eventually_rank (Some (TimeInterval None None)) = 0"
| "eventually_rank (Some (TimeInterval None (Some _))) = 1"
| "eventually_rank (Some (TimeInterval (Some t1) None)) = (if t1 = 0 then 0 else 2)"
| "eventually_rank (Some (TimeInterval (Some t1) (Some _))) = (if t1 = 0 then 1 else 2)"

fun until_rank :: "TimeInterval option \<Rightarrow> nat" where
  "until_rank None = 0"
| "until_rank (Some (TimeInterval t1 None)) = (if t1 = None \<or> t1 = Some 0 then 0 else 4)"
| "until_rank (Some (TimeInterval _ (Some _))) = 5"

fun pending :: "Expr \<Rightarrow> nat" where
  "pending (Constant _) = 0"
| "pending (Identifier _) = 0"
| "pending (NotOp a) = pending a"
| "pending (AndOp _ _) = 0"
| "pending (OrOp l r) = pending l + pending r"
| "pending (EverywhereOp _ a) = pending a"
| "pending (SomewhereOp _ a) = pending a"
| "pending (EscapeOp _ a) = pending a"
| "pending (ReachOp l _ r) = pending l + pending r"
| "pending (NextOp _ a) = pending a"
| "pending (GloballyOp _ a) = 3 + pending a"
| "pending (EventuallyOp i a) = eventually_rank i + pending a"
| "pending (UntilOp l i r) = until_rank i + pending l + pending r"

text \<open>The call returns or raises, and a formula it returns is \<open>expanded\<close>.\<close>

definition finishes :: "Expr \<Rightarrow> bool" where
  "finishes e =
     (case expand_intervals e of
        None \<Rightarrow> False
      | Some (Inl _) \<Rightarrow> True
      | Some (Inr e') \<Rightarrow> expanded e')"

section \<open>The recursion\<close>





section \<open>The constructors\<close>

lemma TimeInterval_init_accepts:
  "TimeInterval_init (Some t1) (Some t2) = Inr ti \<longleftrightarrow>
     0 \<le> t1 \<and> t1 < t2 \<and> ti = TimeInterval (Some t1) (Some t2)"
  by auto

text \<open>
  Claim C7.  Building \<^verbatim>\<open>TimeInterval(t1, t2)\<close> from two integers raises a
  \<^verbatim>\<open>ValueError\<close>, and so hands out no interval, whenever the bounds are equal, the
  first is above the second, or one of them is negative.
\<close>

theorem TimeInterval_init_rejects:
  "t1 = t2 \<or> t1 > t2 \<or> t1 < 0 \<or> t2 < 0 \<Longrightarrow>
     \<exists>why. TimeInterval_init (Some t1) (Some t2) = Inl (ValueError why)"
  by auto

theorem TimeInterval_init_rejects_witness:
  "(\<exists>why. TimeInterval_init (Some 3) (Some 3) = Inl (ValueError why)) \<and>
   (\<exists>why. TimeInterval_init (Some 5) (Some 2) = Inl (ValueError why)) \<and>
   (\<exists>why. TimeInterval_init (Some (-1)) (Some 4) = Inl (ValueError why))"
proof (intro conjI)
  show "\<exists>why. TimeInterval_init (Some 3) (Some 3) = Inl (ValueError why)"
    by (rule TimeInterval_init_rejects [of 3 3]) simp
  show "\<exists>why. TimeInterval_init (Some 5) (Some 2) = Inl (ValueError why)"
    by (rule TimeInterval_init_rejects [of 5 2]) simp
  show "\<exists>why. TimeInterval_init (Some (-1)) (Some 4) = Inl (ValueError why)"
    by (rule TimeInterval_init_rejects [of "-1" 4]) simp
qed

text \<open>
  Claim C10.  With exactly one bound present nothing is checked: the interval is
  built whatever the other bound is, \<open>-5\<close> included.
\<close>

theorem TimeInterval_init_one_sided:
  "TimeInterval_init (Some t) None = Inr (TimeInterval (Some t) None) \<and>
   TimeInterval_init None (Some t) = Inr (TimeInterval None (Some t)) \<and>
   TimeInterval_init (Some (-5)) None = Inr (TimeInterval (Some (-5)) None) \<and>
   TimeInterval_init None (Some (-5)) = Inr (TimeInterval None (Some (-5)))"
  by simp

text \<open>
  Claim C8.  \<^verbatim>\<open>DistanceInterval(None, None)\<close> is built with start \<open>0.0\<close> and end
  \<open>+\<infinity>\<close>; \<^verbatim>\<open>DistanceInterval(1.0, 1.0)\<close> and \<^verbatim>\<open>DistanceInterval(-1.0, 2.0)\<close>
  both raise.
\<close>

theorem DistanceInterval_init_examples:
  "DistanceInterval_init None None = Inr (DistanceInterval (Some (Finite 0)) (Some PosInf)) \<and>
   DistanceInterval_init (Some (Finite 1)) (Some (Finite 1)) =
     Inl (ValueError DegenerateDistance) \<and>
   DistanceInterval_init (Some (Finite (-1))) (Some (Finite 2)) =
     Inl (ValueError NegativeDistance)"
  by (simp add: DistanceInterval_init_def)

text \<open>
  Claim C9.  \<^verbatim>\<open>NextOp(1, p)\<close> and \<^verbatim>\<open>NextOp(None, p)\<close> are the same node, with
  \<open>None\<close> stored as its steps, and \<^verbatim>\<open>NextOp(0, p)\<close> and \<^verbatim>\<open>NextOp(-1, p)\<close> raise.
\<close>

theorem NextOp_init_steps:
  "NextOp_init (Some 1) p = NextOp_init None p \<and>
   NextOp_init (Some 1) p = Inr (NextOp None p) \<and>
   NextOp_init (Some 0) p = Inl (ValueError NonPositiveSteps) \<and>
   NextOp_init (Some (-1)) p = Inl (ValueError NonPositiveSteps)"
  by simp

section \<open>Iterating a time interval\<close>

lemma iter_take_Count: "iter_take n (Count start) = map (\<lambda>k. start + int k) [0..<n]"
proof (induction n arbitrary: start)
  case 0
  show ?case by simp
next
  case (Suc n)
  have "map (\<lambda>k. start + int k) [0..<Suc n] =
        start # map (\<lambda>k. start + 1 + int k) [0..<n]"
    by (simp add: upt_conv_Cons map_Suc_upt [symmetric] del: upt_Suc)
  with Suc show ?case by simp
qed

lemma iter_take_RangeIter:
  "nat (stop - i) \<le> n \<Longrightarrow> iter_take n (RangeIter i stop) = [i..stop - 1]"
proof (induction n arbitrary: i)
  case 0
  then show ?case by simp
next
  case (Suc n)
  show ?case
  proof (cases "i < stop")
    case True
    with Suc.prems have "nat (stop - (i + 1)) \<le> n" by simp
    from Suc.IH [OF this] True show ?thesis
      by (simp add: upto_rec1 [of i "stop - 1"])
  next
    case False
    then show ?thesis by simp
  qed
qed

text \<open>A bounded interval is iterated from its start, or from \<open>0\<close>, through its end.\<close>

lemma TimeInterval_iter_bounded:
  "nat (end' + 1 - (case start of None \<Rightarrow> 0 | Some t \<Rightarrow> t)) \<le> n \<Longrightarrow>
     iter_take n (TimeInterval_iter (TimeInterval start (Some end'))) =
       [(case start of None \<Rightarrow> 0 | Some t \<Rightarrow> t)..end']"
  using iter_take_RangeIter [of "end' + 1" "case start of None \<Rightarrow> 0 | Some t \<Rightarrow> t" n]
  by (cases start) simp_all

text \<open>An interval with a start and no end is iterated from its start, without end.\<close>

lemma TimeInterval_iter_from:
  "length (iter_take n (TimeInterval_iter (TimeInterval (Some start) None))) = n"
  by (simp add: iter_take_Count)

text \<open>
  Claim C5.  \<^verbatim>\<open>TimeInterval(None, None)\<close> is built as it is, has no end, and its
  iterator stops at once: the \<^verbatim>\<open>match\<close> of \<^verbatim>\<open>__iter__\<close> has no case for it and
  the method falls through to \<^verbatim>\<open>iter([])\<close>.
\<close>

theorem TimeInterval_iter_None_None:
  "TimeInterval_init None None = Inr (TimeInterval None None) \<and>
   ti_end (TimeInterval None None) = None \<and>
   iter_next (TimeInterval_iter (TimeInterval None None)) = None \<and>
   iter_take n (TimeInterval_iter (TimeInterval None None)) = []"
  by (cases n) simp_all

section \<open>The expansion, class by class\<close>

lemma expand_intervals_Constant: "expand_intervals (Constant b) = returns (Constant b)"
  by (rule trans [OF expand_intervals.simps]) simp

lemma expand_intervals_Identifier: "expand_intervals (Identifier n) = returns (Identifier n)"
  by (rule trans [OF expand_intervals.simps]) simp

lemma expand_intervals_AndOp: "expand_intervals (AndOp l r) = returns (AndOp l r)"
  by (rule trans [OF expand_intervals.simps]) simp

lemma expand_intervals_NotOp:
  "expand_intervals (NotOp a) =
     bind_result (expand_intervals a) (\<lambda>arg.
       if isinstance_NotOp arg then returns arg else returns (NotOp arg))"
  by (rule trans [OF expand_intervals.simps]) simp

lemma expand_intervals_OrOp:
  "expand_intervals (OrOp l r) =
     bind_result (expand_intervals l) (\<lambda>l'.
     bind_result (expand_intervals r) (\<lambda>r'. returns (OrOp l' r')))"
  by (rule trans [OF expand_intervals.simps]) simp

lemma expand_intervals_EverywhereOp:
  "expand_intervals (EverywhereOp d a) =
     bind_result (expand_intervals a) (\<lambda>arg. returns (EverywhereOp d arg))"
  by (rule trans [OF expand_intervals.simps]) simp

lemma expand_intervals_SomewhereOp:
  "expand_intervals (SomewhereOp d a) =
     bind_result (expand_intervals a) (\<lambda>arg. returns (SomewhereOp d arg))"
  by (rule trans [OF expand_intervals.simps]) simp

lemma expand_intervals_EscapeOp:
  "expand_intervals (EscapeOp d a) =
     bind_result (expand_intervals a) (\<lambda>arg. returns (EscapeOp d arg))"
  by (rule trans [OF expand_intervals.simps]) simp

lemma expand_intervals_ReachOp:
  "expand_intervals (ReachOp l d r) =
     bind_result (expand_intervals l) (\<lambda>l'.
     bind_result (expand_intervals r) (\<lambda>r'. returns (ReachOp l' d r')))"
  by (rule trans [OF expand_intervals.simps]) simp

lemma expand_intervals_NextOp:
  "expand_intervals (NextOp steps a) =
     bind_result (expand_intervals a) (\<lambda>arg.
       case steps of None \<Rightarrow> returns (NextOp None arg)
       | Some t \<Rightarrow> returns (next_loop (nat t) arg))"
  by (rule trans [OF expand_intervals.simps]) (cases steps; simp cong: sum.case_cong)

lemma expand_intervals_GloballyOp:
  "expand_intervals (GloballyOp i a) =
     expand_intervals (NotOp (EventuallyOp (collapse_unbounded i) (NotOp a)))"
  by (rule trans [OF expand_intervals.simps]) (simp add: EventuallyOp_init_def)

text \<open>The four shapes of an \<^verbatim>\<open>EventuallyOp\<close>, by the rank of its interval.\<close>

lemma expand_intervals_EventuallyOp_unbounded:
  "eventually_rank i = 0 \<Longrightarrow>
     expand_intervals (EventuallyOp i a) =
       bind_result (expand_intervals a) (\<lambda>arg. returns (EventuallyOp None arg))"
  by (rule trans [OF expand_intervals.simps], cases i rule: eventually_rank.cases)
     (auto simp: EventuallyOp_init_def split: if_splits)

lemma expand_intervals_EventuallyOp_upto:
  "eventually_rank (Some (TimeInterval t1 (Some t2))) = 1 \<Longrightarrow>
     expand_intervals (EventuallyOp (Some (TimeInterval t1 (Some t2))) a) =
       bind_result (expand_intervals a) (\<lambda>arg. returns (or_loop (nat t2) arg arg))"
  by (rule trans [OF expand_intervals.simps], cases t1) (auto split: if_splits)

lemma expand_intervals_EventuallyOp_from:
  "t1 \<noteq> 0 \<Longrightarrow>
     expand_intervals (EventuallyOp (Some (TimeInterval (Some t1) None)) a) =
       (if t1 > 0 then expand_intervals (NextOp (if t1 = 1 then None else Some t1) (EventuallyOp None a))
        else raises AssertionError)"
  by (rule trans [OF expand_intervals.simps]) (simp add: EventuallyOp_init_def)

lemma expand_intervals_EventuallyOp_window:
  "t1 \<noteq> 0 \<Longrightarrow>
     expand_intervals (EventuallyOp (Some (TimeInterval (Some t1) (Some t2))) a) =
       (if t1 > 0 then
          (if t2 - t1 = 0 then raises (ValueError PointInterval)
           else if t2 - t1 < 0 then raises (ValueError ReversedBounds)
           else expand_intervals
                  (NextOp (if t1 = 1 then None else Some t1)
                     (EventuallyOp (Some (TimeInterval (Some 0) (Some (t2 - t1)))) a)))
        else raises AssertionError)"
  by (rule trans [OF expand_intervals.simps]) (simp add: EventuallyOp_init_def)

lemma expand_intervals_UntilOp_unbounded:
  "until_rank i = 0 \<Longrightarrow>
     expand_intervals (UntilOp l i r) =
       bind_result (expand_intervals l) (\<lambda>new_lhs.
       bind_result (expand_intervals r) (\<lambda>new_rhs.
         returns (UntilOp new_lhs None new_rhs)))"
  by (rule trans [OF expand_intervals.simps], cases i rule: until_rank.cases)
     (auto simp: UntilOp_init_def split: if_splits cong: sum.case_cong)

lemma expand_intervals_UntilOp_from:
  "t1 \<noteq> 0 \<Longrightarrow>
     expand_intervals (UntilOp l (Some (TimeInterval (Some t1) None)) r) =
       bind_result (expand_intervals l) (\<lambda>new_lhs.
       bind_result (expand_intervals r) (\<lambda>new_rhs.
         if t1 < 0 then raises (ValueError ReversedBounds)
         else expand_intervals
                (GloballyOp (Some (TimeInterval (Some 0) (Some t1)))
                   (UntilOp new_lhs None new_rhs))))"
  by (rule trans [OF expand_intervals.simps])
     (auto simp: UntilOp_init_def GloballyOp_init_def cong: sum.case_cong)

lemma expand_intervals_UntilOp_window:
  "expand_intervals (UntilOp l (Some (TimeInterval t1 (Some t2))) r) =
     bind_result (expand_intervals l) (\<lambda>new_lhs.
     bind_result (expand_intervals r) (\<lambda>new_rhs.
     bind_result
       (expand_intervals (EventuallyOp (Some (TimeInterval t1 (Some t2))) new_lhs)) (\<lambda>z1.
     bind_result
       (expand_intervals
          (UntilOp new_lhs (collapse_unbounded (Some (TimeInterval t1 None))) new_rhs))
       (\<lambda>z2. returns (AndOp z1 z2)))))"
  by (rule trans [OF expand_intervals.simps], cases t1)
     (simp_all add: UntilOp_init_def EventuallyOp_init_def cong: sum.case_cong)


text \<open>Each round of the loop of \<^verbatim>\<open>EventuallyOp\<close> adds the same disjunct, one step ahead.\<close>

lemma or_loop_Suc_right: "or_loop (Suc n) arg e = OrOp (or_loop n arg e) (NextOp None arg)"
  by (induction n arbitrary: e) simp_all

text \<open>
  Claim C2.  \<^verbatim>\<open>EventuallyOp(TimeInterval(0, 2), Identifier("p")).expand_intervals()\<close>
  returns \<open>(p | X p) | X p\<close>: the second round of the loop adds \<open>X p\<close> again, and
  the result is not the \<open>(p | X p) | X X p\<close> of the claim.
\<close>

theorem expand_intervals_EventuallyOp_0_2:
  "TimeInterval_init (Some 0) (Some 2) = Inr (TimeInterval (Some 0) (Some 2)) \<and>
   expand_intervals (EventuallyOp_init (Some (TimeInterval (Some 0) (Some 2))) (Identifier ''p'')) =
     returns (OrOp (OrOp (Identifier ''p'') (NextOp None (Identifier ''p'')))
                (NextOp None (Identifier ''p''))) \<and>
   expand_intervals (EventuallyOp_init (Some (TimeInterval (Some 0) (Some 2))) (Identifier ''p'')) \<noteq>
     returns (OrOp (OrOp (Identifier ''p'') (NextOp None (Identifier ''p'')))
                (NextOp None (NextOp None (Identifier ''p''))))"
  by (simp add: EventuallyOp_init_def expand_intervals_EventuallyOp_upto
        expand_intervals_Identifier numeral_2_eq_2)

text \<open>
  Claim C3.  \<^verbatim>\<open>AndOp(l, r).expand_intervals()\<close> is \<^verbatim>\<open>AndOp(l, r)\<close> itself: the class
  inherits the method of \<^verbatim>\<open>Expr\<close> and neither conjunct is expanded, although
  expanding \<^verbatim>\<open>GloballyOp(None, p)\<close> on its own rewrites it.
\<close>

theorem expand_intervals_AndOp_unchanged:
  "expand_intervals (AndOp l r) = returns (AndOp l r) \<and>
   expand_intervals (GloballyOp_init None (Identifier ''p'')) =
     returns (NotOp (EventuallyOp None (NotOp (Identifier ''p'')))) \<and>
   expand_intervals (AndOp (GloballyOp_init None (Identifier ''p'')) (Identifier ''q'')) \<noteq>
     returns (AndOp (NotOp (EventuallyOp None (NotOp (Identifier ''p'')))) (Identifier ''q''))"
  by (simp add: GloballyOp_init_def expand_intervals_AndOp expand_intervals_GloballyOp
        expand_intervals_NotOp expand_intervals_EventuallyOp_unbounded
        expand_intervals_Identifier)

text \<open>
  Claim C1.  \<^verbatim>\<open>AndOp(GloballyOp(None, p), q).expand_intervals()\<close> returns a formula
  that still holds a \<^verbatim>\<open>GloballyOp\<close>.
\<close>

theorem expand_intervals_not_interval_free:
  "expand_intervals (AndOp (GloballyOp_init None (Identifier ''p'')) (Identifier ''q'')) =
     returns (AndOp (GloballyOp None (Identifier ''p'')) (Identifier ''q'')) \<and>
   \<not> interval_free (AndOp (GloballyOp None (Identifier ''p'')) (Identifier ''q''))"
  by (simp add: GloballyOp_init_def expand_intervals_AndOp)

text \<open>
  Claim C6.  For an atomic \<open>p\<close>, expanding \<^verbatim>\<open>NotOp(NotOp(p))\<close> returns
  \<^verbatim>\<open>NotOp(p)\<close>, and not \<open>p\<close>: the inner \<^verbatim>\<open>NotOp(p)\<close> expands to itself, is a
  \<^verbatim>\<open>NotOp\<close>, and is returned in place of the outer node.
\<close>

theorem expand_intervals_NotOp_NotOp:
  "is_atomic p \<Longrightarrow>
     expand_intervals (NotOp (NotOp p)) = returns (NotOp p) \<and>
     expand_intervals (NotOp (NotOp p)) \<noteq> returns p"
  by (cases p)
     (simp_all add: expand_intervals_NotOp expand_intervals_Constant expand_intervals_Identifier)

theorem expand_intervals_NotOp_NotOp_witness:
  "is_atomic (Identifier ''p'') \<and>
   expand_intervals (NotOp (NotOp (Identifier ''p''))) = returns (NotOp (Identifier ''p'')) \<and>
   expand_intervals (NotOp (NotOp (Identifier ''p''))) \<noteq> returns (Identifier ''p'')"
  using expand_intervals_NotOp_NotOp [of "Identifier ''p''"] by simp

section \<open>Termination\<close>

lemma expanded_next_loop: "expanded (next_loop n e) = expanded e"
  by (induction n arbitrary: e) simp_all

lemma expanded_or_loop: "expanded arg \<Longrightarrow> expanded e \<Longrightarrow> expanded (or_loop n arg e)"
  by (induction n arbitrary: e) simp_all

lemma expanded_pending: "expanded e \<Longrightarrow> pending e = 0"
  by (induction e) simp_all

lemma eventually_rank_le: "eventually_rank i \<le> 2"
  by (cases i rule: eventually_rank.cases) simp_all

lemma eventually_rank_collapse: "eventually_rank (collapse_unbounded i) = eventually_rank i"
  by (cases i rule: eventually_rank.cases) simp_all

lemma until_rank_collapse_from: "until_rank (collapse_unbounded (Some (TimeInterval t1 None))) \<le> 4"
  by (cases t1) simp_all

lemma eventually_shapes:
  obtains (unbounded) "eventually_rank i = 0"
  | (upto) t1 t2 where "i = Some (TimeInterval t1 (Some t2))" "eventually_rank i = 1"
  | (late) t1 where "i = Some (TimeInterval (Some t1) None)" "t1 \<noteq> 0"
  | (window) t1 t2 where "i = Some (TimeInterval (Some t1) (Some t2))" "t1 \<noteq> 0"
proof -
  have "eventually_rank i = 0 \<or>
    (\<exists>t1 t2. i = Some (TimeInterval t1 (Some t2)) \<and> eventually_rank i = 1) \<or>
    (\<exists>t1. i = Some (TimeInterval (Some t1) None) \<and> t1 \<noteq> 0) \<or>
    (\<exists>t1 t2. i = Some (TimeInterval (Some t1) (Some t2)) \<and> t1 \<noteq> 0)"
    by (cases i rule: eventually_rank.cases) auto
  then show thesis
    using that by blast
qed

lemma until_shapes:
  obtains (unbounded) "until_rank i = 0"
  | (late) t1 where "i = Some (TimeInterval (Some t1) None)" "t1 \<noteq> 0"
  | (window) t1 t2 where "i = Some (TimeInterval t1 (Some t2))"
proof -
  have "until_rank i = 0 \<or>
    (\<exists>t1. i = Some (TimeInterval (Some t1) None) \<and> t1 \<noteq> 0) \<or>
    (\<exists>t1 t2. i = Some (TimeInterval t1 (Some t2)))"
    by (cases i rule: until_rank.cases) auto
  then show thesis
    using that by blast
qed

lemma finishes_cases:
  assumes "finishes e"
  obtains (raises) err where "expand_intervals e = raises err"
  | (returns) e' where "expand_intervals e = returns e'" "expanded e'"
  using assms by (auto simp: finishes_def split: option.splits sum.splits)

lemma finishes_raises: "expand_intervals e = raises err \<Longrightarrow> finishes e"
  by (simp add: finishes_def)

lemma finishes_returns: "expand_intervals e = returns e' \<Longrightarrow> expanded e' \<Longrightarrow> finishes e"
  by (simp add: finishes_def)

lemma finishes_tail: "expand_intervals e = expand_intervals e' \<Longrightarrow> finishes e' \<Longrightarrow> finishes e"
  by (simp add: finishes_def)

lemma finishes_NotOp: "finishes a \<Longrightarrow> finishes (NotOp a)"
  by (erule finishes_cases) (simp_all add: finishes_def expand_intervals_NotOp)

lemma finishes_OrOp: "finishes l \<Longrightarrow> finishes r \<Longrightarrow> finishes (OrOp l r)"
  by (erule finishes_cases; erule finishes_cases)
     (simp_all add: finishes_def expand_intervals_OrOp)

lemma finishes_EverywhereOp: "finishes a \<Longrightarrow> finishes (EverywhereOp d a)"
  by (erule finishes_cases) (simp_all add: finishes_def expand_intervals_EverywhereOp)

lemma finishes_SomewhereOp: "finishes a \<Longrightarrow> finishes (SomewhereOp d a)"
  by (erule finishes_cases) (simp_all add: finishes_def expand_intervals_SomewhereOp)

lemma finishes_EscapeOp: "finishes a \<Longrightarrow> finishes (EscapeOp d a)"
  by (erule finishes_cases) (simp_all add: finishes_def expand_intervals_EscapeOp)

lemma finishes_ReachOp: "finishes l \<Longrightarrow> finishes r \<Longrightarrow> finishes (ReachOp l d r)"
  by (erule finishes_cases; erule finishes_cases)
     (simp_all add: finishes_def expand_intervals_ReachOp)

lemma finishes_NextOp: "finishes a \<Longrightarrow> finishes (NextOp steps a)"
  by (erule finishes_cases; cases steps)
     (simp_all add: finishes_def expand_intervals_NextOp expanded_next_loop)

lemma finishes_GloballyOp:
  assumes "\<And>x. pending x < pending (GloballyOp i a) \<Longrightarrow> finishes x"
  shows "finishes (GloballyOp i a)"
proof (rule finishes_tail [OF expand_intervals_GloballyOp])
  have "eventually_rank (collapse_unbounded i) \<le> 2"
    by (rule eventually_rank_le)
  then show "finishes (NotOp (EventuallyOp (collapse_unbounded i) (NotOp a)))"
    by (intro assms) simp
qed

lemma finishes_EventuallyOp:
  assumes arg: "finishes a"
    and less: "\<And>x. pending x < pending (EventuallyOp i a) \<Longrightarrow> finishes x"
  shows "finishes (EventuallyOp i a)"
proof (cases i rule: eventually_shapes)
  case unbounded
  from arg show ?thesis
    by (rule finishes_cases)
       (simp_all add: finishes_def expand_intervals_EventuallyOp_unbounded [OF unbounded])
next
  case (upto t1 t2)
  from arg show ?thesis
    using expand_intervals_EventuallyOp_upto [of t1 t2 a] upto
    by (elim finishes_cases) (simp_all add: finishes_def expanded_or_loop)
next
  case (late t1)
  show ?thesis
  proof (cases "t1 > 0")
    case True
    let ?next = "NextOp (if t1 = 1 then None else Some t1) (EventuallyOp None a)"
    have "finishes ?next"
      using late by (intro less) simp
    moreover have "expand_intervals (EventuallyOp i a) = expand_intervals ?next"
      using late True by (simp add: expand_intervals_EventuallyOp_from)
    ultimately show ?thesis
      by (rule finishes_tail [rotated])
  next
    case False
    with late show ?thesis
      by (simp add: finishes_def expand_intervals_EventuallyOp_from)
  qed
next
  case (window t1 t2)
  show ?thesis
  proof (cases "t1 > 0 \<and> t1 < t2")
    case True
    let ?next = "NextOp (if t1 = 1 then None else Some t1)
                   (EventuallyOp (Some (TimeInterval (Some 0) (Some (t2 - t1)))) a)"
    have "finishes ?next"
      using window by (intro less) simp
    moreover have "expand_intervals (EventuallyOp i a) = expand_intervals ?next"
      using window True by (simp add: expand_intervals_EventuallyOp_window)
    ultimately show ?thesis
      by (rule finishes_tail [rotated])
  next
    case False
    with window show ?thesis
      by (auto simp: finishes_def expand_intervals_EventuallyOp_window)
  qed
qed

lemma finishes_UntilOp:
  assumes lhs: "finishes l" and rhs: "finishes r"
    and less: "\<And>x. pending x < pending (UntilOp l i r) \<Longrightarrow> finishes x"
  shows "finishes (UntilOp l i r)"
proof -
  from lhs show ?thesis
  proof (cases rule: finishes_cases)
    case (raises err)
    then show ?thesis
      by (cases i rule: until_shapes)
         (simp_all add: finishes_def expand_intervals_UntilOp_unbounded
            expand_intervals_UntilOp_from expand_intervals_UntilOp_window)
  next
    case L: (returns new_lhs)
    from rhs show ?thesis
    proof (cases rule: finishes_cases)
      case (raises err)
      with L show ?thesis
        by (cases i rule: until_shapes)
           (simp_all add: finishes_def expand_intervals_UntilOp_unbounded
              expand_intervals_UntilOp_from expand_intervals_UntilOp_window)
    next
      case R: (returns new_rhs)
      have zero: "pending new_lhs = 0" "pending new_rhs = 0"
        using L R by (simp_all add: expanded_pending)
      show ?thesis
      proof (cases i rule: until_shapes)
        case unbounded
        with L R show ?thesis
          by (simp add: finishes_def expand_intervals_UntilOp_unbounded)
      next
        case (late t1)
        let ?next = "GloballyOp (Some (TimeInterval (Some 0) (Some t1)))
                       (UntilOp new_lhs None new_rhs)"
        have "finishes ?next"
          using late zero by (intro less) simp
        then show ?thesis
          using late L R
          by (simp add: finishes_def expand_intervals_UntilOp_from)
      next
        case (window t1 t2)
        let ?ev = "EventuallyOp i new_lhs"
        let ?un = "UntilOp new_lhs (collapse_unbounded (Some (TimeInterval t1 None))) new_rhs"
        have "finishes ?ev"
          using window zero eventually_rank_le [of i] by (intro less) simp
        moreover have "finishes ?un"
          using window zero until_rank_collapse_from [of t1] by (intro less) simp
        ultimately show ?thesis
          using window L R
          by (elim finishes_cases)
             (simp_all add: finishes_def expand_intervals_UntilOp_window)
      qed
    qed
  qed
qed

lemma finishes_all: "finishes e"
proof (induction e rule: wf_induct_rule [OF wf_measures [of "[pending, size]"]])
  case (1 e)
  have smaller: "finishes x" if "pending x \<le> pending e" "size x < size e" for x
    using that by (intro 1) auto
  have less: "finishes x" if "pending x < pending e" for x
    using that by (intro 1) auto
  show ?case
  proof (cases e)
    case (Constant b)
    then show ?thesis by (simp add: finishes_def expand_intervals_Constant)
  next
    case (Identifier n)
    then show ?thesis by (simp add: finishes_def expand_intervals_Identifier)
  next
    case (NotOp a)
    then show ?thesis using smaller [of a] by (simp add: finishes_NotOp)
  next
    case (AndOp l r)
    then show ?thesis by (simp add: finishes_def expand_intervals_AndOp)
  next
    case (OrOp l r)
    then show ?thesis using smaller [of l] smaller [of r] by (simp add: finishes_OrOp)
  next
    case (EverywhereOp d a)
    then show ?thesis using smaller [of a] by (simp add: finishes_EverywhereOp)
  next
    case (SomewhereOp d a)
    then show ?thesis using smaller [of a] by (simp add: finishes_SomewhereOp)
  next
    case (EscapeOp d a)
    then show ?thesis using smaller [of a] by (simp add: finishes_EscapeOp)
  next
    case (ReachOp l d r)
    then show ?thesis using smaller [of l] smaller [of r] by (simp add: finishes_ReachOp)
  next
    case (NextOp steps a)
    then show ?thesis using smaller [of a] by (simp add: finishes_NextOp)
  next
    case (GloballyOp i a)
    show ?thesis
      unfolding GloballyOp by (rule finishes_GloballyOp) (rule less, simp add: GloballyOp)
  next
    case (EventuallyOp i a)
    have "finishes a" using EventuallyOp by (intro smaller) simp_all
    then show ?thesis
      unfolding EventuallyOp
      by (rule finishes_EventuallyOp) (rule less, simp add: EventuallyOp)
  next
    case (UntilOp l i r)
    have "finishes l" "finishes r" using UntilOp by (auto intro!: smaller)
    then show ?thesis
      unfolding UntilOp
      by (rule finishes_UntilOp) (rule less, simp add: UntilOp)
  qed
qed

text \<open>A formula that is returned has its intervals expanded down to the conjunctions.\<close>

lemma expand_intervals_expanded: "expand_intervals e = returns e' \<Longrightarrow> expanded e'"
  using finishes_all [of e] by (simp add: finishes_def)

text \<open>\<^verbatim>\<open>expand_intervals\<close> comes to an end on every formula: it returns a formula or raises.\<close>

lemma expand_intervals_terminates: "\<exists>res. expand_intervals e = Some res"
  using finishes_all [of e] by (cases "expand_intervals e") (simp_all add: finishes_def)

section \<open>What decreases along the recursion\<close>





end
